theory Spec2Isabelle
  imports Complex_Main
begin

section \<open>Python numbers\<close>

text \<open>
  The source is Python 2 (it uses \<^verbatim>\<open>print\<close> statements). Its numbers are either
  unbounded integers or floats; \<^verbatim>\<open>/\<close> between two integers is floor division, every
  other mix is promoted to float. Floats are idealised as real numbers: rounding error,
  infinities and NaN are not represented.
\<close>

datatype pynum = PInt int | PFloat real

datatype py_error = ZeroDivisionError | ValueError

fun val :: "pynum \<Rightarrow> real" where
  "val (PInt i) = real_of_int i"
| "val (PFloat r) = r"

fun padd :: "pynum \<Rightarrow> pynum \<Rightarrow> pynum" where
  "padd (PInt x) (PInt y) = PInt (x + y)"
| "padd a b = PFloat (val a + val b)"

fun psub :: "pynum \<Rightarrow> pynum \<Rightarrow> pynum" where
  "psub (PInt x) (PInt y) = PInt (x - y)"
| "psub a b = PFloat (val a - val b)"

fun pmul :: "pynum \<Rightarrow> pynum \<Rightarrow> pynum" where
  "pmul (PInt x) (PInt y) = PInt (x * y)"
| "pmul a b = PFloat (val a * val b)"

text \<open>\<^verbatim>\<open>a / b\<close>: raises on a zero divisor, floors on two integers.\<close>

fun pdiv :: "pynum \<Rightarrow> pynum \<Rightarrow> py_error + pynum" where
  "pdiv (PInt x) (PInt y) = (if y = 0 then Inl ZeroDivisionError else Inr (PInt (x div y)))"
| "pdiv a b = (if val b = 0 then Inl ZeroDivisionError else Inr (PFloat (val a / val b)))"

fun pabs :: "pynum \<Rightarrow> pynum" where
  "pabs (PInt x) = PInt \<bar>x\<bar>"
| "pabs (PFloat r) = PFloat \<bar>r\<bar>"

text \<open>\<^verbatim>\<open>a < b\<close> compares the numeric values, whatever the two types.\<close>

definition pless :: "pynum \<Rightarrow> pynum \<Rightarrow> bool" where
  "pless a b = (val a < val b)"

text \<open>\<^verbatim>\<open>math.sqrt(a)\<close>: a float, or \<^verbatim>\<open>ValueError\<close> on a negative argument.\<close>

definition psqrt :: "pynum \<Rightarrow> py_error + pynum" where
  "psqrt a = (if val a < 0 then Inl ValueError else Inr (PFloat (sqrt (val a))))"

text \<open>\<^verbatim>\<open>int(round(a))\<close>: Python 2 rounds halves away from zero.\<close>

fun pround :: "pynum \<Rightarrow> int" where
  "pround (PInt i) = i"
| "pround (PFloat r) = (if 0 \<le> r then \<lfloor>r + 1 / 2\<rfloor> else \<lceil>r - 1 / 2\<rceil>)"

definition half :: pynum where
  "half = PFloat (1 / 2)"

section \<open>Clock\<close>

text \<open>
  \<^verbatim>\<open>datetime.datetime.now()\<close> is passed in explicitly as a number of microseconds;
  \<^verbatim>\<open>total_seconds()\<close> of a difference is a float.
\<close>

type_synonym datetime = int

definition total_seconds :: "int \<Rightarrow> pynum" where
  "total_seconds d = PFloat (real_of_int d / 1000000)"

section \<open>Status reporter\<close>

text \<open>
  Modelled from the spec: the module \<^verbatim>\<open>status\<close> (class \<^verbatim>\<open>Status\<close>) is imported by
  \<^verbatim>\<open>axis.py\<close> but is not among the sources. Per the specification it holds a moving/done
  flag and an optional error (flag and message), with \<^verbatim>\<open>setError(flag, message)\<close>,
  \<^verbatim>\<open>setMoving()\<close>, \<^verbatim>\<open>setDoneMoving()\<close> and a readable \<^verbatim>\<open>doneMoving\<close>.
\<close>

record status =
  doneMoving :: bool
  error :: bool
  errorMessage :: string

definition setError :: "bool \<Rightarrow> string \<Rightarrow> status \<Rightarrow> status" where
  "setError flag message st = st\<lparr>error := flag, errorMessage := message\<rparr>"

definition setMoving :: "status \<Rightarrow> status" where
  "setMoving st = st\<lparr>doneMoving := False\<rparr>"

definition setDoneMoving :: "status \<Rightarrow> status" where
  "setDoneMoving st = st\<lparr>doneMoving := True\<rparr>"

section \<open>The axis\<close>

record axis =
  velocity :: pynum
  baseVelocity :: pynum
  acceleration :: pynum
  deceleration :: pynum
  highLimit :: int
  lowLimit :: int
  units :: string
  resolution :: pynum
  moveStartTime :: "datetime option"
  abortTime :: "datetime option"
  lastPosition :: pynum
  currentPosition :: pynum
  currentDisplacement :: pynum
  targetPosition :: int
  direction :: int
  moveVelocity :: pynum
  accelDuration :: pynum
  accelDistance :: pynum
  decelDuration :: pynum
  decelDistance :: pynum
  moveDistance :: pynum
  constVelDuration :: pynum
  decelStartTime :: pynum
  moveDuration :: pynum
  enforceLimits :: bool
  status :: status

text \<open>\<^verbatim>\<open>__init__\<close>; the initial reporter is whatever \<^verbatim>\<open>status.Status()\<close> builds.\<close>

definition Axis_init :: "status \<Rightarrow> axis" where
  "Axis_init st = \<lparr>
     velocity = PInt 400, baseVelocity = PInt 0,
     acceleration = PInt 400, deceleration = PInt 400,
     highLimit = 40000, lowLimit = - 40000,
     units = ''counts'', resolution = PFloat 1,
     moveStartTime = None, abortTime = None,
     lastPosition = PInt 0, currentPosition = PInt 0, currentDisplacement = PInt 0,
     targetPosition = 0, direction = 0, moveVelocity = PInt 400,
     accelDuration = PFloat 0, accelDistance = PInt 0,
     decelDuration = PFloat 0, decelDistance = PInt 0,
     moveDistance = PInt 0, constVelDuration = PFloat 0,
     decelStartTime = PFloat 0, moveDuration = PFloat 0,
     enforceLimits = False, status = st \<rparr>"

subsection \<open>move\<close>

text \<open>
  A method that raises leaves the object as mutated so far: the result is \<open>Inl\<close> of the
  exception and that state, or \<open>Inr\<close> of the state on return. The constant return value
  \<^verbatim>\<open>"OK"\<close> and the diagnostic printing are not represented.
\<close>

type_synonym outcome = "(py_error \<times> axis) + axis"

text \<open>Lines 88 to 100: the branch taken when the full speed is never reached.\<close>

definition move_short :: "axis \<Rightarrow> outcome" where
  "move_short s =
    (case pdiv (pmul (pmul (pmul (PInt 2) (acceleration s)) (deceleration s)) (moveDistance s))
               (padd (acceleration s) (deceleration s)) of
       Inl e \<Rightarrow> Inl (e, s)
     | Inr q \<Rightarrow>
    (case psqrt q of
       Inl e \<Rightarrow> Inl (e, s)
     | Inr peakVelocity \<Rightarrow>
    (let s1 = s\<lparr>moveVelocity := peakVelocity\<rparr> in
     case pdiv peakVelocity (acceleration s1) of
       Inl e \<Rightarrow> Inl (e, s1)
     | Inr ad \<Rightarrow>
    (let s2 = s1\<lparr>accelDuration := ad\<rparr>;
         s3 = s2\<lparr>accelDistance := pmul (pmul half peakVelocity) (accelDuration s2)\<rparr> in
     case pdiv (psub peakVelocity (baseVelocity s3)) (deceleration s3) of
       Inl e \<Rightarrow> Inl (e, s3)
     | Inr dd \<Rightarrow>
    (let s4 = s3\<lparr>decelDuration := dd\<rparr>;
         s5 = s4\<lparr>decelDistance :=
                  padd (pmul (pmul half (psub peakVelocity (baseVelocity s4))) (decelDuration s4))
                       (pmul (baseVelocity s4) (decelDuration s4))\<rparr>
     in Inr (s5\<lparr>constVelDuration := PFloat 0\<rparr>))))))"

text \<open>Lines 102 and 103: the branch with a constant-velocity phase.\<close>

definition move_full :: "axis \<Rightarrow> outcome" where
  "move_full s =
    (let s1 = s\<lparr>moveVelocity := velocity s\<rparr> in
     case pdiv (psub (psub (moveDistance s1) (accelDistance s1)) (decelDistance s1)) (velocity s1) of
       Inl e \<Rightarrow> Inl (e, s1)
     | Inr c \<Rightarrow> Inr (s1\<lparr>constVelDuration := c\<rparr>))"

text \<open>Lines 58 to 106: the planning done once the limits have let the target through.\<close>

definition move_plan :: "datetime \<Rightarrow> pynum \<Rightarrow> axis \<Rightarrow> outcome" where
  "move_plan now target s =
    (let s1 = s\<lparr>moveStartTime := Some now\<rparr>;
         s2 = s1\<lparr>targetPosition := pround target\<rparr>;
         s3 = s2\<lparr>direction := (if pless (PInt (targetPosition s2)) (lastPosition s2) then - 1 else 1)\<rparr>;
         s4 = s3\<lparr>moveDistance := pabs (psub (PInt (targetPosition s3)) (lastPosition s3))\<rparr> in
     case pdiv (psub (velocity s4) (baseVelocity s4)) (acceleration s4) of
       Inl e \<Rightarrow> Inl (e, s4)
     | Inr ad \<Rightarrow>
    (let s5 = s4\<lparr>accelDuration := ad\<rparr>;
         s6 = s5\<lparr>accelDistance :=
                  padd (pmul (pmul half (psub (velocity s5) (baseVelocity s5))) (accelDuration s5))
                       (pmul (baseVelocity s5) (accelDuration s5))\<rparr> in
     case pdiv (psub (velocity s6) (baseVelocity s6)) (deceleration s6) of
       Inl e \<Rightarrow> Inl (e, s6)
     | Inr dd \<Rightarrow>
    (let s7 = s6\<lparr>decelDuration := dd\<rparr>;
         s8 = s7\<lparr>decelDistance :=
                  padd (pmul (pmul half (psub (velocity s7) (baseVelocity s7))) (decelDuration s7))
                       (pmul (baseVelocity s7) (decelDuration s7))\<rparr> in
     case (if pless (moveDistance s8) (padd (accelDistance s8) (decelDistance s8))
           then move_short s8 else move_full s8) of
       Inl x \<Rightarrow> Inl x
     | Inr s9 \<Rightarrow>
    (let s10 = s9\<lparr>decelStartTime := padd (accelDuration s9) (constVelDuration s9)\<rparr>
     in Inr (s10\<lparr>moveDuration := padd (decelStartTime s10) (decelDuration s10)\<rparr>)))))"

definition move :: "datetime \<Rightarrow> pynum \<Rightarrow> axis \<Rightarrow> outcome" where
  "move now target s =
    (let s1 = s\<lparr>lastPosition := currentPosition s\<rparr> in
     if enforceLimits s1 \<and> pless (PInt (highLimit s1)) target
     then Inr (s1\<lparr>status := setError True ''Target position exceeds high limit'' (status s1)\<rparr>)
     else if enforceLimits s1 \<and> pless target (PInt (lowLimit s1))
     then Inr (s1\<lparr>status := setError True ''Target position exceeds low limit'' (status s1)\<rparr>)
     else move_plan now target s1)"

subsection \<open>stop\<close>

definition stop :: "datetime \<Rightarrow> axis \<Rightarrow> outcome" where
  "stop now s =
    (case moveStartTime s of
       None \<Rightarrow> Inr (s\<lparr>abortTime := None\<rparr>)
     | Some start \<Rightarrow>
    (case abortTime s of
       Some a \<Rightarrow> Inr s
     | None \<Rightarrow>
    (let s1 = s\<lparr>abortTime := Some now\<rparr>;
         abortTimeSeconds = total_seconds (now - start) in
     if pless abortTimeSeconds (accelDuration s1) then
       (let s2 = s1\<lparr>accelDuration := abortTimeSeconds\<rparr>;
            s3 = s2\<lparr>accelDistance :=
                     padd (pmul (pmul half (acceleration s2)) (pmul abortTimeSeconds abortTimeSeconds))
                          (pmul (baseVelocity s2) abortTimeSeconds)\<rparr>;
            peakVelocity = padd (pmul (acceleration s3) abortTimeSeconds) (baseVelocity s3);
            s4 = s3\<lparr>constVelDuration := PFloat 0\<rparr>;
            s5 = s4\<lparr>decelStartTime := abortTimeSeconds\<rparr> in
        case pdiv (psub peakVelocity (baseVelocity s5)) (deceleration s5) of
          Inl e \<Rightarrow> Inl (e, s5)
        | Inr dd \<Rightarrow>
       (let s6 = s5\<lparr>decelDuration := dd\<rparr>;
            s7 = s6\<lparr>decelDistance :=
                     padd (pmul (pmul half (psub peakVelocity (baseVelocity s6))) (decelDuration s6))
                          (pmul (baseVelocity s6) (decelDuration s6))\<rparr>;
            s8 = s7\<lparr>moveDistance := padd (accelDistance s7) (decelDistance s7)\<rparr>;
            s9 = s8\<lparr>moveDuration := padd (accelDuration s8) (decelDuration s8)\<rparr>
        in Inr (s9\<lparr>moveVelocity := peakVelocity\<rparr>)))
     else if pless abortTimeSeconds (decelStartTime s1) then
       (let s2 = s1\<lparr>decelStartTime := abortTimeSeconds\<rparr>;
            s3 = s2\<lparr>constVelDuration := psub abortTimeSeconds (accelDuration s2)\<rparr>;
            s4 = s3\<lparr>moveDistance :=
                     padd (padd (accelDistance s3) (pmul (moveVelocity s3) (constVelDuration s3)))
                          (decelDistance s3)\<rparr>
        in Inr (s4\<lparr>moveDuration :=
                     padd (padd (accelDuration s4) (constVelDuration s4)) (decelDuration s4)\<rparr>))
     else if pless abortTimeSeconds (moveDuration s1) then Inr s1
     else Inr s1)))"

subsection \<open>readPosition\<close>

text \<open>
  The value \<^verbatim>\<open>currentDisplacement\<close> reaches in each branch of lines 190 to 207, as a
  function of the profile and of \<^verbatim>\<open>movingTimeSeconds\<close>.
\<close>

definition disp_accel :: "axis \<Rightarrow> pynum \<Rightarrow> pynum" where
  "disp_accel s t =
     padd (pmul (baseVelocity s) t) (pmul (pmul (pmul half (acceleration s)) t) t)"

definition disp_past_accel :: "axis \<Rightarrow> pynum \<Rightarrow> pynum" where
  "disp_past_accel s t =
     padd (pmul (baseVelocity s) t) (pmul (pmul half (moveVelocity s)) (accelDuration s))"

definition disp_const :: "axis \<Rightarrow> pynum \<Rightarrow> pynum" where
  "disp_const s t =
     padd (disp_past_accel s t) (pmul (moveVelocity s) (psub t (accelDuration s)))"

definition disp_past_const :: "axis \<Rightarrow> pynum \<Rightarrow> pynum" where
  "disp_past_const s t =
     padd (disp_past_accel s t) (pmul (moveVelocity s) (constVelDuration s))"

definition disp_decel :: "axis \<Rightarrow> pynum \<Rightarrow> pynum" where
  "disp_decel s t =
     padd (disp_past_const s t)
          (pmul (psub (moveVelocity s)
                      (pmul (pmul half (deceleration s)) (psub t (decelStartTime s))))
                (psub t (decelStartTime s)))"

text \<open>Lines 190 to 210: the pair of \<^verbatim>\<open>moveFlag\<close> and \<^verbatim>\<open>currentDisplacement\<close>.\<close>

definition displacement :: "axis \<Rightarrow> pynum \<Rightarrow> bool \<times> pynum" where
  "displacement s t =
    (if pless t (accelDuration s) then (True, disp_accel s t)
     else if pless t (decelStartTime s) then (True, disp_const s t)
     else if pless t (moveDuration s) then (True, disp_decel s t)
     else (False, disp_past_const s t))"

definition readPosition :: "datetime \<Rightarrow> axis \<Rightarrow> int \<times> axis" where
  "readPosition now s =
    (case moveStartTime s of
       None \<Rightarrow> (pround (currentPosition s), s)
     | Some start \<Rightarrow>
    (let movingTimeSeconds = total_seconds (now - start);
         (moveFlag, d) = displacement s movingTimeSeconds;
         s1 = s\<lparr>currentDisplacement := d\<rparr>;
         s2 = (if moveFlag
               then s1\<lparr>currentPosition :=
                         padd (lastPosition s1) (pmul (PInt (direction s1)) (currentDisplacement s1))\<rparr>
               else
                 (let s3 = (case abortTime s1 of
                              None \<Rightarrow> s1\<lparr>currentPosition := PInt (targetPosition s1)\<rparr>
                            | Some a \<Rightarrow>
                                s1\<lparr>currentPosition :=
                                     padd (lastPosition s1)
                                          (pmul (PInt (direction s1)) (moveDistance s1)),
                                   abortTime := None\<rparr>);
                      s4 = s3\<lparr>lastPosition := currentPosition s3\<rparr>
                  in s4\<lparr>moveStartTime := None\<rparr>))
     in (pround (currentPosition s2), s2)))"

subsection \<open>readStatus and the accessors\<close>

definition readStatus :: "datetime \<Rightarrow> axis \<Rightarrow> bool \<times> axis" where
  "readStatus now s =
    (let s1 = (case moveStartTime s of
                 None \<Rightarrow> s\<lparr>status := setDoneMoving (status s)\<rparr>
               | Some start \<Rightarrow>
                   if pless (total_seconds (now - start)) (moveDuration s)
                   then s\<lparr>status := setMoving (status s)\<rparr>
                   else s\<lparr>status := setDoneMoving (status s)\<rparr>)
     in (doneMoving (status s1), s1))"

definition setPosition :: "axis \<Rightarrow> axis" where
  "setPosition s = s"

definition setVelocity :: "pynum \<Rightarrow> axis \<Rightarrow> axis" where
  "setVelocity v s = s\<lparr>velocity := v\<rparr>"

definition setAcceleration :: "pynum \<Rightarrow> axis \<Rightarrow> axis" where
  "setAcceleration a s = s\<lparr>acceleration := a, deceleration := a\<rparr>"

definition setHighLimit :: "pynum \<Rightarrow> axis \<Rightarrow> axis" where
  "setHighLimit h s = s\<lparr>highLimit := pround h\<rparr>"

definition setLowLimit :: "pynum \<Rightarrow> axis \<Rightarrow> axis" where
  "setLowLimit l s = s\<lparr>lowLimit := pround l\<rparr>"

subsection \<open>Outcomes and scenarios\<close>

text \<open>The state a call leaves behind, and the exception it raised, if any.\<close>

definition final :: "outcome \<Rightarrow> axis" where
  "final r = (case r of Inl (e, s) \<Rightarrow> s | Inr s \<Rightarrow> s)"

definition raised :: "outcome \<Rightarrow> py_error option" where
  "raised r = (case r of Inl (e, s) \<Rightarrow> Some e | Inr s \<Rightarrow> None)"

text \<open>
  The invariant of the positions at rest: with no profile active, the sampled position
  is the committed one.
\<close>

definition rest_consistent :: "axis \<Rightarrow> bool" where
  "rest_consistent s = (moveStartTime s = None \<longrightarrow> currentPosition s = lastPosition s)"

text \<open>
  Starting states of the scenarios evaluated below: a fresh axis (velocity 400, base
  velocity 0, acceleration and deceleration 400), the same with limit enforcement on, one
  with velocity 500 and base velocity 100, and one with velocity 576, base velocity 64,
  acceleration and deceleration 512.
\<close>

definition status0 :: status where
  "status0 = \<lparr>doneMoving = True, error = False, errorMessage = []\<rparr>"

definition fresh_axis :: axis where
  "fresh_axis = Axis_init status0"

definition limited_axis :: axis where
  "limited_axis = fresh_axis\<lparr>enforceLimits := True\<rparr>"

definition creep_axis :: axis where
  "creep_axis = fresh_axis\<lparr>velocity := PInt 500, baseVelocity := PInt 100\<rparr>"

definition slow_axis :: axis where
  "slow_axis = fresh_axis\<lparr>velocity := PInt 576, baseVelocity := PInt 64,
     acceleration := PInt 512, deceleration := PInt 512\<rparr>"

text \<open>
  The states those scenarios pass through. Times are in microseconds; every move
  starts at time 0 from position 0.
\<close>

definition trapezoid_plan :: axis where
  "trapezoid_plan = final (move 0 (PInt 1000) fresh_axis)"

definition aborted_plan :: axis where
  "aborted_plan = final (stop 500000 trapezoid_plan)"

definition limited_sampled :: axis where
  "limited_sampled = snd (readPosition 500000 (final (move 0 (PInt 1000) limited_axis)))"

definition creep_long_plan :: axis where
  "creep_long_plan = final (move 0 (PInt 1100) creep_axis)"

definition creep_short_plan :: axis where
  "creep_short_plan = final (move 0 (PInt 100) creep_axis)"

definition slow_plan :: axis where
  "slow_plan = final (move 0 (PInt 2) slow_axis)"

text \<open>The distance invariant of a profile: the three phases add up to the move.\<close>

definition distance_consistent :: "axis \<Rightarrow> bool" where
  "distance_consistent s =
     (val (accelDistance s) + val (moveVelocity s) * val (constVelDuration s)
        + val (decelDistance s) = val (moveDistance s))"

section \<open>Arithmetic of the number model\<close>

lemma val_padd: "val (padd a b) = val a + val b"
  by (cases a; cases b) simp_all

lemma val_psub: "val (psub a b) = val a - val b"
  by (cases a; cases b) simp_all

lemma val_pmul: "val (pmul a b) = val a * val b"
  by (cases a; cases b) simp_all

lemma pround_of_int: "val x = real_of_int n \<Longrightarrow> pround x = n"
  by (cases x) (auto simp: floor_eq_iff ceiling_eq_iff)

lemma val_total_seconds: "val (total_seconds d) = real_of_int d / 1000000"
  by (simp add: total_seconds_def)

lemma sqrt_40000: "sqrt 40000 = 200"
  by (rule real_sqrt_unique) simp_all

lemma sqrt_1024: "sqrt 1024 = 32"
  by (rule real_sqrt_unique) simp_all

lemma final_Inr: "final (Inr s) = s"
  by (simp add: final_def)

lemma final_Inl: "final (Inl (e, s)) = s"
  by (simp add: final_def)

text \<open>The unfolding that evaluates a scenario.\<close>

lemmas scenario_defs =
  Axis_init_def move_def move_plan_def move_full_def move_short_def Let_def pless_def
  half_def psqrt_def stop_def readPosition_def displacement_def total_seconds_def
  disp_accel_def disp_const_def disp_decel_def disp_past_accel_def disp_past_const_def
  setError_def final_def raised_def status0_def fresh_axis_def limited_axis_def
  creep_axis_def slow_axis_def trapezoid_plan_def aborted_plan_def limited_sampled_def
  creep_long_plan_def creep_short_plan_def slow_plan_def sqrt_40000 sqrt_1024

section \<open>What planning writes\<close>

lemma move_short_start: "moveStartTime (final (move_short s)) = moveStartTime s"
  by (simp add: move_short_def final_def Let_def split: sum.splits)

lemma move_full_start: "moveStartTime (final (move_full s)) = moveStartTime s"
  by (simp add: move_full_def final_def Let_def split: sum.splits)

lemma move_short_startD:
  "move_short s = Inr s' \<Longrightarrow> moveStartTime s' = moveStartTime s"
  "move_short s = Inl (e, s') \<Longrightarrow> moveStartTime s' = moveStartTime s"
  using move_short_start[of s] by (simp_all add: final_def)

lemma move_full_startD:
  "move_full s = Inr s' \<Longrightarrow> moveStartTime s' = moveStartTime s"
  "move_full s = Inl (e, s') \<Longrightarrow> moveStartTime s' = moveStartTime s"
  using move_full_start[of s] by (simp_all add: final_def)

lemma move_plan_start: "moveStartTime (final (move_plan now target s)) = Some now"
  unfolding move_plan_def Let_def
  by (auto simp: final_def split: sum.splits if_splits
      dest!: move_short_startD move_full_startD)

lemma move_start_cases:
  "moveStartTime (final (move now target s)) = Some now \<or>
   (moveStartTime (final (move now target s)) = moveStartTime s \<and>
    currentPosition (final (move now target s)) = currentPosition s \<and>
    lastPosition (final (move now target s)) = currentPosition s)"
  by (simp add: move_def Let_def move_plan_start final_Inr)

lemma stop_positions:
  "moveStartTime (final (stop now s)) = moveStartTime s"
  "currentPosition (final (stop now s)) = currentPosition s"
  "lastPosition (final (stop now s)) = lastPosition s"
  by (auto simp: stop_def final_def Let_def split: option.splits sum.splits)

lemma displacement_done:
  assumes "val (accelDuration s) \<le> val t"
    and "val (decelStartTime s) \<le> val t"
    and "val (moveDuration s) \<le> val t"
  shows "displacement s t = (False, disp_past_const s t)"
  using assms by (simp add: displacement_def pless_def)

text \<open>
  With a positive velocity and deceleration and a base velocity of zero, the plan of an
  accepted move has ordered phase boundaries.
\<close>

lemma pdiv_nonneg:
  "pdiv a b = Inr q \<Longrightarrow> 0 \<le> val a \<Longrightarrow> 0 < val b \<Longrightarrow> 0 \<le> val q"
  by (cases a; cases b) (auto simp: pos_imp_zdiv_nonneg_iff split: if_splits)

lemma psqrt_nonneg: "psqrt a = Inr q \<Longrightarrow> 0 \<le> val q"
  by (auto simp: psqrt_def split: if_splits)

lemma move_full_durations:
  assumes "move_full s = Inr p"
    and "0 < val (velocity s)"
    and "\<not> pless (moveDistance s) (padd (accelDistance s) (decelDistance s))"
  shows "accelDuration p = accelDuration s \<and> decelDuration p = decelDuration s \<and>
         0 \<le> val (constVelDuration p)"
proof -
  from assms(1) obtain c where
    c: "pdiv (psub (psub (moveDistance s) (accelDistance s)) (decelDistance s)) (velocity s) = Inr c"
    and p: "p = s\<lparr>moveVelocity := velocity s, constVelDuration := c\<rparr>"
    by (auto simp: move_full_def Let_def split: sum.splits)
  have "0 \<le> val (psub (psub (moveDistance s) (accelDistance s)) (decelDistance s))"
    using assms(3) by (simp add: pless_def val_psub val_padd)
  then have "0 \<le> val c"
    using assms(2) by (intro pdiv_nonneg [OF c]) simp_all
  with p show ?thesis by simp
qed

lemma move_short_durations:
  assumes "move_short s = Inr p"
    and "0 < val (deceleration s)"
    and "val (baseVelocity s) = 0"
  shows "constVelDuration p = PFloat 0 \<and> 0 \<le> val (decelDuration p)"
proof -
  from assms(1) obtain q peak ad dd where
    peak: "psqrt q = Inr peak"
    and dd: "pdiv (psub peak (baseVelocity s)) (deceleration s) = Inr dd"
    and p: "constVelDuration p = PFloat 0" "decelDuration p = dd"
    by (auto simp: move_short_def Let_def split: sum.splits)
  have "0 \<le> val (psub peak (baseVelocity s))"
    using psqrt_nonneg [OF peak] assms(3) by (simp add: val_psub)
  then have "0 \<le> val dd"
    using assms(2) by (intro pdiv_nonneg [OF dd]) simp_all
  with p show ?thesis by simp
qed

lemma move_short_durationsD:
  "move_short s = Inr p \<Longrightarrow>
   0 < val (deceleration s) \<and> val (baseVelocity s) = 0 \<longrightarrow>
   constVelDuration p = PFloat 0 \<and> 0 \<le> val (decelDuration p)"
  using move_short_durations by blast

lemma move_full_durationsD:
  "move_full s = Inr p \<Longrightarrow>
   0 < val (velocity s) \<and> \<not> pless (moveDistance s) (padd (accelDistance s) (decelDistance s)) \<longrightarrow>
   accelDuration p = accelDuration s \<and> decelDuration p = decelDuration s \<and>
   0 \<le> val (constVelDuration p)"
  using move_full_durations by blast

lemma move_plan_ordered:
  assumes "move_plan now target s = Inr p"
    and "0 < val (velocity s)" and "0 < val (deceleration s)"
    and "val (baseVelocity s) = 0"
  shows "val (accelDuration p) \<le> val (decelStartTime p) \<and>
         val (decelStartTime p) \<le> val (moveDuration p)"
proof -
  have dd: "\<And>dd. pdiv (psub (velocity s) (baseVelocity s)) (deceleration s) = Inr dd
             \<Longrightarrow> 0 \<le> val dd"
    using assms(2-4) by (erule_tac pdiv_nonneg) (simp_all add: val_psub)
  show ?thesis
    using assms unfolding move_plan_def Let_def
    by (auto simp: val_padd split: sum.splits if_splits
        dest!: move_short_durationsD move_full_durationsD dest: dd)
qed

text \<open>The plan of the fresh axis for a move to 1000, field by field.\<close>

lemma trapezoid_plan_fields:
  "moveStartTime trapezoid_plan = Some 0"
  "abortTime trapezoid_plan = None"
  "targetPosition trapezoid_plan = 1000"
  "lastPosition trapezoid_plan = PInt 0"
  "direction trapezoid_plan = 1"
  "moveDistance trapezoid_plan = PInt 1000"
  "accelDuration trapezoid_plan = PInt 1"
  "decelStartTime trapezoid_plan = PFloat (5 / 2)"
  "moveDuration trapezoid_plan = PFloat (7 / 2)"
  by (simp_all add: scenario_defs)

text \<open>
  What the planning leaves alone, and what it establishes: in the state an accepted move
  returns, \<^verbatim>\<open>lastPosition + direction * moveDistance\<close> is the rounded target.
\<close>

lemma move_short_frame:
  "move_short s = Inr p \<Longrightarrow>
     lastPosition p = lastPosition s \<and> direction p = direction s \<and>
     moveDistance p = moveDistance s \<and> targetPosition p = targetPosition s \<and>
     abortTime p = abortTime s \<and> moveStartTime p = moveStartTime s"
  by (auto simp: move_short_def Let_def split: sum.splits)

lemma move_full_frame:
  "move_full s = Inr p \<Longrightarrow>
     lastPosition p = lastPosition s \<and> direction p = direction s \<and>
     moveDistance p = moveDistance s \<and> targetPosition p = targetPosition s \<and>
     abortTime p = abortTime s \<and> moveStartTime p = moveStartTime s"
  by (auto simp: move_full_def Let_def split: sum.splits)

lemma reach_arith:
  "val l + real_of_int (if pless (PInt T) l then - 1 else 1) * val (pabs (psub (PInt T) l))
     = real_of_int T"
  by (cases l) (auto simp: pless_def)

lemma move_plan_profile:
  assumes "move_plan now target s = Inr p"
  shows "moveStartTime p = Some now \<and> abortTime p = abortTime s \<and>
         targetPosition p = pround target \<and> lastPosition p = lastPosition s \<and>
         val (lastPosition p) + real_of_int (direction p) * val (moveDistance p)
           = real_of_int (targetPosition p)"
  using assms reach_arith [of "lastPosition s" "pround target"]
  unfolding move_plan_def Let_def
  by (auto split: sum.splits if_splits dest!: move_short_frame move_full_frame)

lemma move_accepted:
  assumes "\<not> (enforceLimits s \<and> pless (PInt (highLimit s)) target)"
    and "\<not> (enforceLimits s \<and> pless target (PInt (lowLimit s)))"
  shows "move now target s = move_plan now target (s\<lparr>lastPosition := currentPosition s\<rparr>)"
  using assms by (auto simp: move_def Let_def)

section \<open>Reads and stops past the end of a profile\<close>

text \<open>
  Once the three phase tests of \<^verbatim>\<open>readPosition\<close> have failed, the profile is finalized:
  with no abort recorded the position is copied from \<^verbatim>\<open>targetPosition\<close>, with an abort
  recorded it is computed as \<^verbatim>\<open>lastPosition + direction * moveDistance\<close>. A \<^verbatim>\<open>stop\<close>
  at such a time changes nothing but the abort time.
\<close>

lemma readPosition_arrival:
  assumes "moveStartTime s = Some start"
    and "abortTime s = None"
    and "val (accelDuration s) \<le> val (total_seconds (now - start))"
    and "val (decelStartTime s) \<le> val (total_seconds (now - start))"
    and "val (moveDuration s) \<le> val (total_seconds (now - start))"
  shows "readPosition now s =
           (targetPosition s,
            s\<lparr>currentDisplacement := disp_past_const s (total_seconds (now - start)),
              currentPosition := PInt (targetPosition s),
              lastPosition := PInt (targetPosition s),
              moveStartTime := None\<rparr>)"
proof -
  have d: "displacement s (total_seconds (now - start)) =
             (False, disp_past_const s (total_seconds (now - start)))"
    using assms(3-5) by (rule displacement_done)
  show ?thesis
    using assms(1,2) d by (simp add: readPosition_def Let_def)
qed

lemma readPosition_abort_arrival:
  assumes "moveStartTime s = Some start"
    and "abortTime s = Some a"
    and "val (accelDuration s) \<le> val (total_seconds (now - start))"
    and "val (decelStartTime s) \<le> val (total_seconds (now - start))"
    and "val (moveDuration s) \<le> val (total_seconds (now - start))"
  shows "readPosition now s =
           (pround (padd (lastPosition s) (pmul (PInt (direction s)) (moveDistance s))),
            s\<lparr>currentDisplacement := disp_past_const s (total_seconds (now - start)),
              currentPosition := padd (lastPosition s) (pmul (PInt (direction s)) (moveDistance s)),
              abortTime := None,
              lastPosition := padd (lastPosition s) (pmul (PInt (direction s)) (moveDistance s)),
              moveStartTime := None\<rparr>)"
proof -
  have d: "displacement s (total_seconds (now - start)) =
             (False, disp_past_const s (total_seconds (now - start)))"
    using assms(3-5) by (rule displacement_done)
  show ?thesis
    using assms(1,2) d by (simp add: readPosition_def Let_def)
qed

lemma stop_past_end:
  assumes "moveStartTime s = Some start"
    and "val (accelDuration s) \<le> val (total_seconds (now - start))"
    and "val (decelStartTime s) \<le> val (total_seconds (now - start))"
    and "val (moveDuration s) \<le> val (total_seconds (now - start))"
  shows "stop now s =
           Inr (s\<lparr>abortTime := (case abortTime s of None \<Rightarrow> Some now | Some a \<Rightarrow> Some a)\<rparr>)"
proof -
  have t: "\<not> pless (total_seconds (now - start)) (accelDuration s)"
    "\<not> pless (total_seconds (now - start)) (decelStartTime s)"
    "\<not> pless (total_seconds (now - start)) (moveDuration s)"
    using assms(2-4) by (simp_all add: pless_def)
  show ?thesis
    using assms(1) t by (cases "abortTime s") (simp_all add: stop_def Let_def)
qed

text \<open>
  For an accepted move planned with a positive velocity and deceleration and a base
  velocity of zero, the phase boundaries are ordered, so that \<^verbatim>\<open>moveDuration\<close> alone
  decides: with no abort pending, the first read at or after it returns the rounded
  target and later reads repeat it; a \<^verbatim>\<open>stop\<close> at or after it changes the abort time
  only, and the read that follows returns the rounded target.
\<close>

lemma arrival_after_move:
  assumes "move start target s = Inr p"
    and "\<not> (enforceLimits s \<and> pless (PInt (highLimit s)) target)"
    and "\<not> (enforceLimits s \<and> pless target (PInt (lowLimit s)))"
    and "abortTime s = None"
    and "0 < val (velocity s)" and "0 < val (deceleration s)"
    and "val (baseVelocity s) = 0"
    and "val (moveDuration p) \<le> val (total_seconds (now - start))"
  shows "readPosition now p =
           (pround target,
            p\<lparr>currentDisplacement := disp_past_const p (total_seconds (now - start)),
              currentPosition := PInt (pround target),
              lastPosition := PInt (pround target),
              moveStartTime := None\<rparr>) \<and>
         readPosition later (snd (readPosition now p)) =
           (pround target, snd (readPosition now p))"
proof -
  let ?s = "s\<lparr>lastPosition := currentPosition s\<rparr>"
  have plan: "move_plan start target ?s = Inr p"
    using assms(1) move_accepted [OF assms(2,3)] by simp
  note prof = move_plan_profile [OF plan]
  have "0 < val (velocity ?s)" "0 < val (deceleration ?s)" "val (baseVelocity ?s) = 0"
    using assms(5-7) by simp_all
  note ord = move_plan_ordered [OF plan this]
  have a: "val (accelDuration p) \<le> val (total_seconds (now - start))"
    and d: "val (decelStartTime p) \<le> val (total_seconds (now - start))"
    using ord assms(8) by linarith+
  have st: "moveStartTime p = Some start" and ab: "abortTime p = None"
    and tg: "targetPosition p = pround target"
    using prof assms(4) by simp_all
  have first: "readPosition now p =
           (pround target,
            p\<lparr>currentDisplacement := disp_past_const p (total_seconds (now - start)),
              currentPosition := PInt (pround target),
              lastPosition := PInt (pround target),
              moveStartTime := None\<rparr>)"
    using readPosition_arrival [OF st ab a d assms(8)] by (simp only: tg)
  have again: "readPosition later (snd (readPosition now p)) =
           (pround target, snd (readPosition now p))"
    by (simp add: first) (simp add: readPosition_def)
  from first again show ?thesis
    by (rule conjI)
qed

lemma stale_stop_after_move:
  assumes "move start target s = Inr p"
    and "\<not> (enforceLimits s \<and> pless (PInt (highLimit s)) target)"
    and "\<not> (enforceLimits s \<and> pless target (PInt (lowLimit s)))"
    and "0 < val (velocity s)" and "0 < val (deceleration s)"
    and "val (baseVelocity s) = 0"
    and "val (moveDuration p) \<le> val (total_seconds (now - start))"
    and "now \<le> later"
  shows "stop now p =
           Inr (p\<lparr>abortTime := (case abortTime s of None \<Rightarrow> Some now | Some a \<Rightarrow> Some a)\<rparr>) \<and>
         fst (readPosition later (final (stop now p))) = pround target"
proof -
  let ?s = "s\<lparr>lastPosition := currentPosition s\<rparr>"
  let ?p1 = "p\<lparr>abortTime := (case abortTime p of None \<Rightarrow> Some now | Some a \<Rightarrow> Some a)\<rparr>"
  have plan: "move_plan start target ?s = Inr p"
    using assms(1) move_accepted [OF assms(2,3)] by simp
  note prof = move_plan_profile [OF plan]
  have "0 < val (velocity ?s)" "0 < val (deceleration ?s)" "val (baseVelocity ?s) = 0"
    using assms(4-6) by simp_all
  note ord = move_plan_ordered [OF plan this]
  have a: "val (accelDuration p) \<le> val (total_seconds (now - start))"
    and d: "val (decelStartTime p) \<le> val (total_seconds (now - start))"
    using ord assms(7) by linarith+
  have st: "moveStartTime p = Some start" and ab: "abortTime p = abortTime s"
    and tg: "targetPosition p = pround target"
    using prof by simp_all
  have sum: "val (lastPosition p) + real_of_int (direction p) * val (moveDistance p)
           = real_of_int (targetPosition p)"
    using prof by blast
  have stp: "stop now p = Inr ?p1"
    by (rule stop_past_end [OF st a d assms(7)])
  have "val (total_seconds (now - start)) \<le> val (total_seconds (later - start))"
    using assms(8) by (simp add: val_total_seconds)
  then have late: "val (accelDuration ?p1) \<le> val (total_seconds (later - start))"
    "val (decelStartTime ?p1) \<le> val (total_seconds (later - start))"
    "val (moveDuration ?p1) \<le> val (total_seconds (later - start))"
    using a d assms(7) by simp_all
  obtain b where b: "abortTime ?p1 = Some b"
    by (cases "abortTime p") simp_all
  have st1: "moveStartTime ?p1 = Some start"
    using st by simp
  have r: "pround (padd (lastPosition p) (pmul (PInt (direction p)) (moveDistance p)))
             = pround target"
    using sum tg by (intro pround_of_int) (simp add: val_padd val_pmul)
  have "fst (readPosition later ?p1) = pround target"
    using readPosition_abort_arrival [OF st1 b late] r by simp
  with stp ab show ?thesis
    by (simp add: final_Inr)
qed

text \<open>
  The computed position need not be the target. With limit enforcement on, start a move
  to 1000, sample at 0.5 seconds, and have a move to 50000 rejected at 1 second: the
  rejected move has copied the sampled position 50 into \<^verbatim>\<open>lastPosition\<close>. A \<^verbatim>\<open>stop\<close> at
  4 seconds, after the planned end at 3.5 seconds, followed by a read at 5 seconds returns
  1050.
\<close>

lemma stale_stop_after_rejected_move:
  "moveStartTime limited_sampled = Some 0 \<and>
   targetPosition limited_sampled = 1000 \<and>
   val (moveDuration limited_sampled) \<le> val (total_seconds (4000000 - 0)) \<and>
   lastPosition (final (move 1000000 (PInt 50000) limited_sampled)) = PFloat 50 \<and>
   targetPosition (final (move 1000000 (PInt 50000) limited_sampled)) = 1000 \<and>
   fst (readPosition 5000000
         (final (stop 4000000 (final (move 1000000 (PInt 50000) limited_sampled))))) = 1050"
  by (simp add: scenario_defs)

section \<open>Base velocity in the sampled displacement\<close>

text \<open>
  Claim C1 asks for a displacement without jumps at \<^verbatim>\<open>accelDuration\<close> and
  \<^verbatim>\<open>decelStartTime\<close> that reaches \<^verbatim>\<open>moveDistance\<close> at \<^verbatim>\<open>moveDuration\<close>, for every
  valid parameter set. With velocity 500, base velocity 100, acceleration and
  deceleration 400 and a move from 0 to 1100 the plan has its boundaries at 1, 2 and 3
  seconds. At 1 second the accelerating branch gives 300 and the branch past the
  acceleration gives 350; the decelerating branch at 3 seconds gives 1350, not 1100.
  Sampled one microsecond apart, \<^verbatim>\<open>readPosition\<close> returns 300 then 350, and 1350 then
  1100.
\<close>

theorem readPosition_base_velocity_jump:
  "raised (move 0 (PInt 1100) creep_axis) = None \<and>
   val (accelDuration creep_long_plan) = 1 \<and>
   val (decelStartTime creep_long_plan) = 2 \<and>
   val (moveDuration creep_long_plan) = 3 \<and>
   val (moveDistance creep_long_plan) = 1100 \<and>
   val (disp_accel creep_long_plan (accelDuration creep_long_plan)) = 300 \<and>
   val (disp_const creep_long_plan (accelDuration creep_long_plan)) = 350 \<and>
   val (disp_decel creep_long_plan (moveDuration creep_long_plan)) = 1350 \<and>
   fst (readPosition 999999 creep_long_plan) = 300 \<and>
   fst (readPosition 1000000 creep_long_plan) = 350 \<and>
   fst (readPosition 2999999 creep_long_plan) = 1350 \<and>
   fst (readPosition 3000000 creep_long_plan) = 1100"
  by (simp add: scenario_defs)

section \<open>A stop after the planned end\<close>

text \<open>
  Claim C2 says that a \<^verbatim>\<open>stop\<close> arriving once \<^verbatim>\<open>moveDuration\<close> has elapsed leaves every
  field, the abort time included, as it was. The move of the fresh axis to 1000 lasts 3.5
  seconds; a first \<^verbatim>\<open>stop\<close> at 4 seconds returns without raising and has recorded the
  abort time.
\<close>

theorem stale_stop_records_abortTime:
  "moveStartTime trapezoid_plan = Some 0 \<and>
   abortTime trapezoid_plan = None \<and>
   val (moveDuration trapezoid_plan) \<le> val (total_seconds (4000000 - 0)) \<and>
   raised (stop 4000000 trapezoid_plan) = None \<and>
   abortTime (final (stop 4000000 trapezoid_plan)) = Some 4000000 \<and>
   final (stop 4000000 trapezoid_plan) \<noteq> trapezoid_plan"
proof -
  have a: "abortTime (final (stop 4000000 trapezoid_plan)) = Some 4000000"
    by (simp add: scenario_defs)
  have b: "abortTime trapezoid_plan = None"
    by (simp add: trapezoid_plan_fields)
  from a b have "final (stop 4000000 trapezoid_plan) \<noteq> trapezoid_plan"
    by auto
  moreover have "raised (stop 4000000 trapezoid_plan) = None"
    by (simp add: scenario_defs)
  ultimately show ?thesis
    using a by (simp add: trapezoid_plan_fields val_total_seconds)
qed

text \<open>
  Claim C2, amended. Let a profile be active and let the time elapsed since
  \<^verbatim>\<open>moveStartTime\<close> be at least \<^verbatim>\<open>moveDuration\<close> and at least the two earlier phase
  boundaries, \<^verbatim>\<open>accelDuration\<close> and \<^verbatim>\<open>decelStartTime\<close>. Then \<^verbatim>\<open>stop\<close> changes one
  field at most: the abort time, which it sets to the current time unless an abort was
  already recorded. A \<^verbatim>\<open>readPosition\<close> sampled at that time or later takes the abort
  path: it commits \<^verbatim>\<open>lastPosition + direction * moveDistance\<close> as current and last
  position, clears the abort time and the profile, and returns that sum rounded, which is
  \<^verbatim>\<open>targetPosition\<close> whenever the sum equals \<^verbatim>\<open>targetPosition\<close>.
\<close>

theorem stop_after_completion:
  assumes "moveStartTime s = Some start"
    and "val (accelDuration s) \<le> val (total_seconds (now - start))"
    and "val (decelStartTime s) \<le> val (total_seconds (now - start))"
    and "val (moveDuration s) \<le> val (total_seconds (now - start))"
    and "now \<le> later"
  shows "stop now s =
           Inr (s\<lparr>abortTime := (case abortTime s of None \<Rightarrow> Some now | Some a \<Rightarrow> Some a)\<rparr>) \<and>
         readPosition later (final (stop now s)) =
           (pround (padd (lastPosition s) (pmul (PInt (direction s)) (moveDistance s))),
            s\<lparr>currentDisplacement := disp_past_const s (total_seconds (later - start)),
              currentPosition := padd (lastPosition s) (pmul (PInt (direction s)) (moveDistance s)),
              lastPosition := padd (lastPosition s) (pmul (PInt (direction s)) (moveDistance s)),
              abortTime := None,
              moveStartTime := None\<rparr>) \<and>
         (val (lastPosition s) + real_of_int (direction s) * val (moveDistance s)
            = real_of_int (targetPosition s) \<longrightarrow>
          fst (readPosition later (final (stop now s))) = targetPosition s)"
proof -
  let ?s1 = "s\<lparr>abortTime := (case abortTime s of None \<Rightarrow> Some now | Some a \<Rightarrow> Some a)\<rparr>"
  let ?sum = "padd (lastPosition s) (pmul (PInt (direction s)) (moveDistance s))"
  have st: "stop now s = Inr ?s1"
    by (rule stop_past_end [OF assms(1-4)])
  have "val (total_seconds (now - start)) \<le> val (total_seconds (later - start))"
    using assms(5) by (simp add: val_total_seconds)
  then have late: "val (accelDuration ?s1) \<le> val (total_seconds (later - start))"
    "val (decelStartTime ?s1) \<le> val (total_seconds (later - start))"
    "val (moveDuration ?s1) \<le> val (total_seconds (later - start))"
    using assms(2-4) by simp_all
  obtain b where b: "abortTime ?s1 = Some b"
    by (cases "abortTime s") simp_all
  have st1: "moveStartTime ?s1 = Some start"
    using assms(1) by simp
  have dp: "disp_past_const ?s1 (total_seconds (later - start)) =
              disp_past_const s (total_seconds (later - start))"
    by (simp add: disp_past_const_def disp_past_accel_def)
  have rd: "readPosition later (final (stop now s)) =
           (pround ?sum,
            s\<lparr>currentDisplacement := disp_past_const s (total_seconds (later - start)),
              currentPosition := ?sum,
              lastPosition := ?sum,
              abortTime := None,
              moveStartTime := None\<rparr>)"
    using readPosition_abort_arrival [OF st1 b late] dp by (simp add: st final_Inr)
  have tg: "val (lastPosition s) + real_of_int (direction s) * val (moveDistance s)
              = real_of_int (targetPosition s) \<longrightarrow>
            fst (readPosition later (final (stop now s))) = targetPosition s"
  proof
    assume "val (lastPosition s) + real_of_int (direction s) * val (moveDistance s)
              = real_of_int (targetPosition s)"
    then have "pround ?sum = targetPosition s"
      by (intro pround_of_int) (simp add: val_padd val_pmul)
    then show "fst (readPosition later (final (stop now s))) = targetPosition s"
      by (simp add: rd)
  qed
  from st rd tg show ?thesis
    by blast
qed

theorem stop_after_completion_witness:
  "moveStartTime trapezoid_plan = Some 0 \<and>
   val (accelDuration trapezoid_plan) \<le> val (total_seconds (4000000 - 0)) \<and>
   val (decelStartTime trapezoid_plan) \<le> val (total_seconds (4000000 - 0)) \<and>
   val (moveDuration trapezoid_plan) \<le> val (total_seconds (4000000 - 0)) \<and>
   val (lastPosition trapezoid_plan)
     + real_of_int (direction trapezoid_plan) * val (moveDistance trapezoid_plan)
     = real_of_int (targetPosition trapezoid_plan) \<and>
   stop 4000000 trapezoid_plan = Inr (trapezoid_plan\<lparr>abortTime := Some 4000000\<rparr>) \<and>
   fst (readPosition 5000000 (final (stop 4000000 trapezoid_plan))) = 1000 \<and>
   lastPosition (snd (readPosition 5000000 (final (stop 4000000 trapezoid_plan)))) = PInt 1000 \<and>
   abortTime (snd (readPosition 5000000 (final (stop 4000000 trapezoid_plan)))) = None \<and>
   moveStartTime (snd (readPosition 5000000 (final (stop 4000000 trapezoid_plan)))) = None"
proof -
  have h1: "moveStartTime trapezoid_plan = Some 0"
    and h2: "val (accelDuration trapezoid_plan) \<le> val (total_seconds (4000000 - 0))"
    and h3: "val (decelStartTime trapezoid_plan) \<le> val (total_seconds (4000000 - 0))"
    and h4: "val (moveDuration trapezoid_plan) \<le> val (total_seconds (4000000 - 0))"
    and h6: "val (lastPosition trapezoid_plan)
       + real_of_int (direction trapezoid_plan) * val (moveDistance trapezoid_plan)
       = real_of_int (targetPosition trapezoid_plan)"
    by (simp_all add: trapezoid_plan_fields val_total_seconds)
  have h5: "(4000000 :: int) \<le> 5000000"
    by simp
  note stale = stop_after_completion [OF h1 h2 h3 h4 h5]
  have c1: "stop 4000000 trapezoid_plan = Inr (trapezoid_plan\<lparr>abortTime := Some 4000000\<rparr>)"
    using stale [THEN conjunct1] by (simp add: trapezoid_plan_fields)
  have c2: "fst (readPosition 5000000 (final (stop 4000000 trapezoid_plan))) = 1000"
    using stale [THEN conjunct2, THEN conjunct2] h6 by (simp add: trapezoid_plan_fields)
  have c3: "lastPosition (snd (readPosition 5000000 (final (stop 4000000 trapezoid_plan)))) = PInt 1000"
    and c4: "abortTime (snd (readPosition 5000000 (final (stop 4000000 trapezoid_plan)))) = None"
    and c5: "moveStartTime (snd (readPosition 5000000 (final (stop 4000000 trapezoid_plan)))) = None"
    using stale [THEN conjunct2, THEN conjunct1] by (simp_all add: trapezoid_plan_fields)
  from h1 h2 h3 h4 h6 c1 c2 c3 c4 c5 show ?thesis
    by blast
qed

section \<open>A rejected move\<close>

text \<open>
  Claim C3 says that a move rejected by the limits leaves the motion state untouched.
  \<^verbatim>\<open>move\<close> copies \<^verbatim>\<open>currentPosition\<close> into \<^verbatim>\<open>lastPosition\<close> before it looks at the
  limits. With enforcement on, start a move to 1000 and sample at 0.5 seconds (position
  50); a move to 50000 at 1 second is rejected and the error is reported, the profile
  stays active, but \<^verbatim>\<open>lastPosition\<close> has gone from 0 to 50, so that the position read at
  1 second is 250 where it was 200.
\<close>

theorem rejected_move_overwrites_lastPosition:
  "enforceLimits limited_sampled \<and>
   highLimit limited_sampled < 50000 \<and>
   moveStartTime limited_sampled = Some 0 \<and>
   lastPosition limited_sampled = PInt 0 \<and>
   raised (move 1000000 (PInt 50000) limited_sampled) = None \<and>
   error (status (final (move 1000000 (PInt 50000) limited_sampled))) \<and>
   moveStartTime (final (move 1000000 (PInt 50000) limited_sampled)) = Some 0 \<and>
   lastPosition (final (move 1000000 (PInt 50000) limited_sampled)) = PFloat 50 \<and>
   fst (readPosition 1000000 limited_sampled) = 200 \<and>
   fst (readPosition 1000000 (final (move 1000000 (PInt 50000) limited_sampled))) = 250"
  by (simp add: scenario_defs)

section \<open>A move while an abort is pending\<close>

text \<open>
  Claim C4 says that an accepted move records the start time and clears the abort time.
  \<^verbatim>\<open>move\<close> never assigns \<^verbatim>\<open>abortTime\<close>. Stop the move to 1000 at 0.5 seconds and
  command a move to 2000 at 0.6 seconds, before any read: the new profile starts at 0.6
  seconds with the abort time of 0.5 seconds still recorded, and a \<^verbatim>\<open>stop\<close> at 0.7
  seconds is ignored as already in progress.
\<close>

theorem move_keeps_pending_abort:
  "abortTime aborted_plan = Some 500000 \<and>
   raised (move 600000 (PInt 2000) aborted_plan) = None \<and>
   moveStartTime (final (move 600000 (PInt 2000) aborted_plan)) = Some 600000 \<and>
   targetPosition (final (move 600000 (PInt 2000) aborted_plan)) = 2000 \<and>
   abortTime (final (move 600000 (PInt 2000) aborted_plan)) = Some 500000 \<and>
   stop 700000 (final (move 600000 (PInt 2000) aborted_plan))
     = Inr (final (move 600000 (PInt 2000) aborted_plan))"
  by (simp add: scenario_defs)

section \<open>Short moves with a base velocity\<close>

text \<open>
  Claim C5 states the distance invariant after every planning, base velocities above
  zero included. With velocity 500, base velocity 100, acceleration and deceleration 400,
  a move from 0 to 100 is too short for full speed; the plan has peak velocity 200,
  acceleration distance 50, no constant phase and deceleration distance 37.5, which add up
  to 87.5 and not to the move distance of 100.
\<close>

theorem short_move_breaks_distance_invariant:
  "raised (move 0 (PInt 100) creep_axis) = None \<and>
   accelDistance creep_short_plan = PFloat 50 \<and>
   moveVelocity creep_short_plan = PFloat 200 \<and>
   constVelDuration creep_short_plan = PFloat 0 \<and>
   decelDistance creep_short_plan = PFloat (75 / 2) \<and>
   moveDistance creep_short_plan = PInt 100 \<and>
   \<not> distance_consistent creep_short_plan"
  by (simp add: distance_consistent_def scenario_defs)

text \<open>
  Claim C6 describes the short-move branch as the full-speed formulas with the peak
  velocity in place of the velocity. In the same plan the deceleration leg is computed
  that way, but the acceleration leg leaves the base velocity out: the duration is
  \<^verbatim>\<open>peakVelocity / acceleration\<close> = 0.5 where the full-speed formula at the peak gives
  0.25, and the distance is 50 where that formula gives 37.5.
\<close>

theorem short_move_accel_leg_ignores_base_velocity:
  "raised (move 0 (PInt 100) creep_axis) = None \<and>
   pless (moveDistance creep_short_plan) (PFloat 600) \<and>
   moveVelocity creep_short_plan = PFloat 200 \<and>
   baseVelocity creep_short_plan = PInt 100 \<and>
   acceleration creep_short_plan = PInt 400 \<and>
   accelDuration creep_short_plan = PFloat (1 / 2) \<and>
   pdiv (psub (moveVelocity creep_short_plan) (baseVelocity creep_short_plan))
        (acceleration creep_short_plan) = Inr (PFloat (1 / 4)) \<and>
   accelDistance creep_short_plan = PFloat 50 \<and>
   padd (pmul (pmul half (psub (moveVelocity creep_short_plan) (baseVelocity creep_short_plan)))
              (PFloat (1 / 4)))
        (pmul (baseVelocity creep_short_plan) (PFloat (1 / 4))) = PFloat (75 / 2) \<and>
   decelDuration creep_short_plan = PFloat (1 / 4) \<and>
   decelDistance creep_short_plan = PFloat (75 / 2)"
  by (simp add: scenario_defs)

section \<open>Arrival\<close>

text \<open>
  Claim C7 says that the first \<^verbatim>\<open>readPosition\<close> sampled at or after \<^verbatim>\<open>moveDuration\<close>
  returns the rounded target, commits it and clears the profile. With velocity 576, base
  velocity 64, acceleration and deceleration 512, a move from 0 to 2 is planned by the
  short-move branch, whose peak velocity of 32 lies below the base velocity: the
  acceleration lasts 1/16 second, the deceleration minus 1/16 second, and the move
  duration is 0. A read at 46875 microseconds is past the move duration and before the
  end of the acceleration: it returns 4, not 2, commits nothing and leaves the profile
  active.
\<close>

theorem readPosition_late_finalization:
  "raised (move 0 (PInt 2) slow_axis) = None \<and>
   moveStartTime slow_plan = Some 0 \<and>
   abortTime slow_plan = None \<and>
   targetPosition slow_plan = 2 \<and>
   baseVelocity slow_plan = PInt 64 \<and>
   moveVelocity slow_plan = PFloat 32 \<and>
   accelDuration slow_plan = PFloat (1 / 16) \<and>
   decelDuration slow_plan = PFloat (- 1 / 16) \<and>
   moveDuration slow_plan = PFloat 0 \<and>
   val (moveDuration slow_plan) \<le> val (total_seconds (46875 - 0)) \<and>
   fst (readPosition 46875 slow_plan) = 4 \<and>
   moveStartTime (snd (readPosition 46875 slow_plan)) = Some 0 \<and>
   lastPosition (snd (readPosition 46875 slow_plan)) = PInt 0"
  by (simp add: scenario_defs)

section \<open>Stopping twice\<close>

text \<open>
  Claim C8. \<^verbatim>\<open>stop\<close> is idempotent per move: while a profile is active, the state a first
  \<^verbatim>\<open>stop\<close> leaves behind has an abort recorded, and a second \<^verbatim>\<open>stop\<close>, at whatever
  time, returns that state unchanged. This also covers a first \<^verbatim>\<open>stop\<close> that raised
  on a zero deceleration.
\<close>

theorem stop_idempotent:
  "moveStartTime s \<noteq> None \<Longrightarrow>
   abortTime (final (stop t1 s)) \<noteq> None \<and>
   stop t2 (final (stop t1 s)) = Inr (final (stop t1 s))"
  by (auto simp: stop_def final_def Let_def split: option.splits sum.splits if_splits)

theorem stop_idempotent_witness:
  "moveStartTime trapezoid_plan \<noteq> None \<and>
   abortTime (final (stop 500000 trapezoid_plan)) \<noteq> None \<and>
   stop 2000000 (final (stop 500000 trapezoid_plan)) = Inr (final (stop 500000 trapezoid_plan))"
proof -
  have active: "moveStartTime trapezoid_plan \<noteq> None"
    by (simp add: trapezoid_plan_fields)
  show ?thesis
    using active stop_idempotent [OF active, of 500000 2000000] by simp
qed

section \<open>Reading the status\<close>

text \<open>
  Claim C9. \<^verbatim>\<open>readStatus\<close> at time \<open>now\<close> reports moving exactly when a profile is
  active and the time elapsed since \<^verbatim>\<open>moveStartTime\<close> is below \<^verbatim>\<open>moveDuration\<close>, and
  done otherwise (the value returned is the reporter's \<^verbatim>\<open>doneMoving\<close>); the only field
  of the axis it writes is the reporter, whose flag it sets accordingly.
\<close>

theorem readStatus_result:
  "readStatus now s =
    (let moving = (case moveStartTime s of
                     None \<Rightarrow> False
                   | Some start \<Rightarrow> val (total_seconds (now - start)) < val (moveDuration s))
     in (\<not> moving, s\<lparr>status := (status s)\<lparr>doneMoving := \<not> moving\<rparr>\<rparr>))"
  by (simp add: readStatus_def Let_def pless_def setMoving_def setDoneMoving_def
      split: option.splits)

section \<open>Positions at rest\<close>

text \<open>
  Claim C10. Whenever no profile is active the sampled position equals the committed
  one: a fresh axis satisfies this, and \<^verbatim>\<open>move\<close> (accepted, rejected or raising),
  \<^verbatim>\<open>stop\<close>, \<^verbatim>\<open>readPosition\<close>, \<^verbatim>\<open>readStatus\<close> and every setter preserve it. At rest,
  \<^verbatim>\<open>readPosition\<close> therefore returns the rounded committed position and changes nothing.
\<close>

theorem rest_consistent_preserved:
  assumes "rest_consistent s"
  shows "rest_consistent (Axis_init st) \<and>
         rest_consistent (final (move now target s)) \<and>
         rest_consistent (final (stop now s)) \<and>
         rest_consistent (snd (readPosition now s)) \<and>
         rest_consistent (snd (readStatus now s)) \<and>
         rest_consistent (setPosition s) \<and>
         rest_consistent (setVelocity v s) \<and>
         rest_consistent (setAcceleration a s) \<and>
         rest_consistent (setHighLimit h s) \<and>
         rest_consistent (setLowLimit l s) \<and>
         (moveStartTime s = None \<longrightarrow> readPosition now s = (pround (lastPosition s), s))"
proof -
  have i: "rest_consistent (Axis_init st)"
    by (simp add: rest_consistent_def Axis_init_def)
  have m: "rest_consistent (final (move now target s))"
    using move_start_cases [of now target s] by (auto simp: rest_consistent_def)
  have st: "rest_consistent (final (stop now s))"
    using assms by (simp add: rest_consistent_def stop_positions)
  have rp: "rest_consistent (snd (readPosition now s))"
    using assms by (cases "moveStartTime s")
      (auto simp: readPosition_def rest_consistent_def Let_def split: prod.splits option.splits)
  have rs: "rest_consistent (snd (readStatus now s))"
    using assms by (auto simp: readStatus_def rest_consistent_def Let_def split: option.splits)
  have se: "rest_consistent (setPosition s)" "rest_consistent (setVelocity v s)"
    "rest_consistent (setAcceleration a s)" "rest_consistent (setHighLimit h s)"
    "rest_consistent (setLowLimit l s)"
    using assms by (simp_all add: rest_consistent_def setPosition_def setVelocity_def
        setAcceleration_def setHighLimit_def setLowLimit_def)
  have r: "moveStartTime s = None \<longrightarrow> readPosition now s = (pround (lastPosition s), s)"
    using assms by (auto simp: readPosition_def rest_consistent_def)
  from i m st rp rs se r show ?thesis by blast
qed

theorem rest_consistent_preserved_witness:
  "rest_consistent fresh_axis \<and>
   rest_consistent (final (move 0 (PInt 1000) fresh_axis)) \<and>
   rest_consistent (final (stop 0 fresh_axis)) \<and>
   rest_consistent (snd (readPosition 0 fresh_axis)) \<and>
   rest_consistent (snd (readStatus 0 fresh_axis)) \<and>
   readPosition 0 fresh_axis = (0, fresh_axis)"
proof -
  have inv: "rest_consistent fresh_axis"
    by (simp add: rest_consistent_def fresh_axis_def Axis_init_def)
  have rest: "moveStartTime fresh_axis = None" "lastPosition fresh_axis = PInt 0"
    by (simp_all add: fresh_axis_def Axis_init_def)
  show ?thesis
    using inv rest rest_consistent_preserved [OF inv, of status0 0 "PInt 1000"] by simp
qed

end
